theory Spec2Isabelle
  imports Complex_Main
begin

section \<open>The page: DOM nodes, listeners, observers, frame requests and timers\<close>

text \<open>
  The script of the landing page works on the browser's document. The document is
  modelled as a store of nodes addressed by references, so that two lookups that return
  the same element share its state. Arithmetic on JavaScript Numbers is taken over the
  reals, extended by the not-a-number value where the script can produce it: rounding
  of doubles is not modelled.
\<close>

type_synonym ref = nat

datatype jsnum = NaN | Num real

text \<open>
  \<open>textContent\<close> holds either a string literal assigned by the script, or the string
  conversion of a Number assigned by the script (\<open>element.textContent = current\<close>); the
  latter is kept as the Number that was converted.
\<close>

datatype text_value = Literal string | NumberText jsnum

record node =
  localName :: string
  classList :: "string set"
  attributes :: "string \<rightharpoonup> string"
  textContent :: text_value
  disabled :: bool
  style_opacity :: string
  style_background :: string
  control_value :: string
  control_default :: string

text \<open>
  Closures created by the script, named after the function they close over, with the
  variables they capture.
\<close>

datatype click_listener =
    ToggleClick ref ref   \<comment> \<open>the listener on the menu toggle: captures toggle and links\<close>
  | LinkClick ref ref     \<comment> \<open>the listener on a link of the panel: captures toggle and links\<close>

datatype frame_callback =
    Update ref real jsnum \<comment> \<open>\<open>update\<close> of \<open>animateCounter\<close>: element, startTime, target\<close>

datatype timer_task =
    SendDone ref ref      \<comment> \<open>the outer \<open>setTimeout\<close> callback: captures btn and form\<close>
  | Revert ref            \<comment> \<open>the inner \<open>setTimeout\<close> callback: captures btn\<close>

record page =
  nodes :: "ref \<Rightarrow> node"
  ids :: "string \<rightharpoonup> ref"                      \<comment> \<open>\<open>document.getElementById\<close>\<close>
  document_order :: "ref list"                  \<comment> \<open>the elements of the document, in tree order\<close>
  ancestors :: "ref \<Rightarrow> ref list"                \<comment> \<open>parent chain of an element, nearest first\<close>
  form_controls :: "ref \<Rightarrow> ref list"            \<comment> \<open>the controls a form element owns\<close>
  scrollY :: real                               \<comment> \<open>\<open>window.scrollY\<close>\<close>
  now :: real                                   \<comment> \<open>\<open>performance.now()\<close>, in milliseconds\<close>
  scroll_listeners :: "ref list"                \<comment> \<open>\<open>onScroll\<close> closures, each capturing its navbar\<close>
  click_listeners :: "ref \<Rightarrow> click_listener list"
  reveal_observed :: "ref set"                  \<comment> \<open>targets of the observer of \<open>initScrollAnimations\<close>\<close>
  counter_observed :: "ref set"                 \<comment> \<open>targets of the observer of \<open>initCounterAnimations\<close>\<close>
  frame_requests :: "frame_callback list"       \<comment> \<open>callbacks passed to \<open>requestAnimationFrame\<close>\<close>
  timers :: "(real \<times> timer_task) list"          \<comment> \<open>pending \<open>setTimeout\<close> tasks with their due time\<close>

record intersection_entry =
  target :: ref
  isIntersecting :: bool

record submit_event =
  defaultPrevented :: bool

subsection \<open>DOM operations used by the script\<close>

definition getElementById :: "page \<Rightarrow> string \<Rightarrow> ref option" where
  "getElementById pg i = ids pg i"

definition update_node :: "ref \<Rightarrow> (node \<Rightarrow> node) \<Rightarrow> page \<Rightarrow> page" where
  "update_node r f pg = pg\<lparr>nodes := (nodes pg)(r := f (nodes pg r))\<rparr>"

text \<open>\<open>classList.toggle(token, force)\<close>, \<open>classList.toggle(token)\<close>, \<open>add\<close> and \<open>remove\<close>.\<close>

definition classList_toggle_force :: "string \<Rightarrow> bool \<Rightarrow> string set \<Rightarrow> string set" where
  "classList_toggle_force tok force cl = (if force then insert tok cl else cl - {tok})"

definition classList_toggle :: "string \<Rightarrow> string set \<Rightarrow> string set" where
  "classList_toggle tok cl = (if tok \<in> cl then cl - {tok} else insert tok cl)"

definition classList_add :: "string \<Rightarrow> string set \<Rightarrow> string set" where
  "classList_add tok cl = insert tok cl"

definition classList_remove :: "string \<Rightarrow> string set \<Rightarrow> string set" where
  "classList_remove tok cl = cl - {tok}"

definition has_class :: "page \<Rightarrow> ref \<Rightarrow> string \<Rightarrow> bool" where
  "has_class pg r tok = (tok \<in> classList (nodes pg r))"

section \<open>Navbar\<close>

text \<open>
  \<open>const onScroll = () => { navbar.classList.toggle('scrolled', window.scrollY > 60); };\<close>
\<close>

definition onScroll :: "ref \<Rightarrow> page \<Rightarrow> page" where
  "onScroll navbar pg =
     update_node navbar
       (\<lambda>n. n\<lparr>classList := classList_toggle_force ''scrolled'' (scrollY pg > 60) (classList n)\<rparr>) pg"

text \<open>
  \<open>initNavbar\<close>: look the navbar up, return if it is absent, otherwise register
  \<open>onScroll\<close> for scroll events and run it once.
\<close>

definition initNavbar :: "page \<Rightarrow> page" where
  "initNavbar pg =
     (case getElementById pg ''navbar'' of
        None \<Rightarrow> pg
      | Some navbar \<Rightarrow>
          onScroll navbar (pg\<lparr>scroll_listeners := scroll_listeners pg @ [navbar]\<rparr>))"

text \<open>
  The browser on a scroll event: the window's offset is the new one and every
  registered scroll listener runs, in the order of registration.
\<close>

definition scroll_event :: "real \<Rightarrow> page \<Rightarrow> page" where
  "scroll_event y pg = fold onScroll (scroll_listeners pg) (pg\<lparr>scrollY := y\<rparr>)"

section \<open>Scroll animations\<close>

text \<open>\<open>document.querySelectorAll\<close> with a selector that tests each element on its own.\<close>

definition querySelectorAll :: "(node \<Rightarrow> bool) \<Rightarrow> page \<Rightarrow> ref list" where
  "querySelectorAll sel pg = filter (\<lambda>r. sel (nodes pg r)) (document_order pg)"

definition reveal_observe :: "ref \<Rightarrow> page \<Rightarrow> page" where
  "reveal_observe el pg = pg\<lparr>reveal_observed := insert el (reveal_observed pg)\<rparr>"

definition reveal_unobserve :: "ref \<Rightarrow> page \<Rightarrow> page" where
  "reveal_unobserve el pg = pg\<lparr>reveal_observed := reveal_observed pg - {el}\<rparr>"

text \<open>
  The body of \<open>entries.forEach\<close> in the observer's callback:
  \<open>if (entry.isIntersecting) { entry.target.classList.add('visible');
  observer.unobserve(entry.target); }\<close>
\<close>

definition reveal_entry :: "intersection_entry \<Rightarrow> page \<Rightarrow> page" where
  "reveal_entry entry pg =
     (if isIntersecting entry then
        reveal_unobserve (target entry)
          (update_node (target entry)
             (\<lambda>n. n\<lparr>classList := classList_add ''visible'' (classList n)\<rparr>) pg)
      else pg)"

definition reveal_callback :: "intersection_entry list \<Rightarrow> page \<Rightarrow> page" where
  "reveal_callback entries pg = fold reveal_entry entries pg"

definition initScrollAnimations :: "page \<Rightarrow> page" where
  "initScrollAnimations pg =
     (let elements = querySelectorAll (\<lambda>n. ''animate-on-scroll'' \<in> classList n) pg in
      if length elements = 0 then pg
      else fold reveal_observe elements pg)"

text \<open>
  The browser's side of an IntersectionObserver: of the intersection changes it has
  detected, it hands to the callback those whose target the observer observes.
\<close>

definition reveal_delivered :: "intersection_entry list \<Rightarrow> page \<Rightarrow> intersection_entry list" where
  "reveal_delivered changes pg = filter (\<lambda>e. target e \<in> reveal_observed pg) changes"

definition reveal_notify :: "intersection_entry list \<Rightarrow> page \<Rightarrow> page" where
  "reveal_notify changes pg = reveal_callback (reveal_delivered changes pg) pg"

section \<open>Counter animations\<close>

subsection \<open>\<open>parseInt(string, 10)\<close>\<close>

text \<open>
  Strings are byte lists in UTF-8. The white space that \<open>parseInt\<close> skips is the
  ECMAScript \<open>WhiteSpace\<close> and \<open>LineTerminator\<close> code points: TAB, LF, VT, FF, CR, SP,
  U+00A0, U+1680, U+2000 to U+200A, U+2028, U+2029, U+202F, U+205F, U+3000, U+FEFF.
\<close>

definition white_space :: "string list" where
  "white_space =
     [[CHR 0x09], [CHR 0x0A], [CHR 0x0B], [CHR 0x0C], [CHR 0x0D], [CHR 0x20],
      [CHR 0xC2, CHR 0xA0],
      [CHR 0xE1, CHR 0x9A, CHR 0x80],
      [CHR 0xE2, CHR 0x80, CHR 0x80], [CHR 0xE2, CHR 0x80, CHR 0x81],
      [CHR 0xE2, CHR 0x80, CHR 0x82], [CHR 0xE2, CHR 0x80, CHR 0x83],
      [CHR 0xE2, CHR 0x80, CHR 0x84], [CHR 0xE2, CHR 0x80, CHR 0x85],
      [CHR 0xE2, CHR 0x80, CHR 0x86], [CHR 0xE2, CHR 0x80, CHR 0x87],
      [CHR 0xE2, CHR 0x80, CHR 0x88], [CHR 0xE2, CHR 0x80, CHR 0x89],
      [CHR 0xE2, CHR 0x80, CHR 0x8A],
      [CHR 0xE2, CHR 0x80, CHR 0xA8], [CHR 0xE2, CHR 0x80, CHR 0xA9],
      [CHR 0xE2, CHR 0x80, CHR 0xAF],
      [CHR 0xE2, CHR 0x81, CHR 0x9F],
      [CHR 0xE3, CHR 0x80, CHR 0x80],
      [CHR 0xEF, CHR 0xBB, CHR 0xBF]]"

definition starts_with :: "string \<Rightarrow> string \<Rightarrow> bool" where
  "starts_with s w = (take (length w) s = w)"

definition leading_white_space :: "string \<Rightarrow> string option" where
  "leading_white_space s = find (starts_with s) white_space"

function trimStart :: "string \<Rightarrow> string" where
  "trimStart s =
     (case leading_white_space s of
        None \<Rightarrow> s
      | Some w \<Rightarrow> trimStart (drop (length w) s))"
  by pat_completeness auto
termination
proof (relation "measure length")
  show "wf (measure length)" by simp
next
  fix s w
  assume "leading_white_space s = Some w"
  then have "w \<in> set white_space" and "starts_with s w"
    by (auto simp: leading_white_space_def find_Some_iff)
  moreover have "\<forall>v \<in> set white_space. v \<noteq> []"
    by (simp add: white_space_def)
  ultimately have w: "w \<noteq> []" "take (length w) s = w"
    by (auto simp: starts_with_def)
  then have "s \<noteq> []" by auto
  with w show "(drop (length w) s, s) \<in> measure length"
    by simp
qed

definition is_digit :: "char \<Rightarrow> bool" where
  "is_digit c = (48 \<le> (of_char c :: nat) \<and> (of_char c :: nat) \<le> 57)"

definition digit_value :: "char \<Rightarrow> nat" where
  "digit_value c = of_char c - 48"

definition decimal :: "string \<Rightarrow> nat" where
  "decimal z = foldl (\<lambda>a c. 10 * a + digit_value c) 0 z"

text \<open>
  \<open>parseInt\<close> with radix 10: the argument is converted to a string (\<open>null\<close>, the result
  of \<open>getAttribute\<close> for a missing attribute, becomes the string \<open>null\<close>), leading white
  space and one sign are removed, and the longest prefix of decimal digits is the
  value; without such a digit the result is NaN.
\<close>

definition parseInt10 :: "string option \<Rightarrow> jsnum" where
  "parseInt10 a =
     (let inputString = (case a of None \<Rightarrow> ''null'' | Some s \<Rightarrow> s);
          S = trimStart inputString;
          sign = (if S \<noteq> [] \<and> hd S = CHR ''-'' then - 1 else (1::int));
          S' = (if S \<noteq> [] \<and> (hd S = CHR ''+'' \<or> hd S = CHR ''-'') then tl S else S);
          Z = takeWhile is_digit S'
      in if Z = [] then NaN else Num (of_int (sign * int (decimal Z))))"

definition getAttribute :: "page \<Rightarrow> ref \<Rightarrow> string \<Rightarrow> string option" where
  "getAttribute pg el name = attributes (nodes pg el) name"

subsection \<open>Number operations\<close>

text \<open>
  Products and roundings are taken over the reals. An engine computes them in IEEE
  doubles, and \<open>Math.pow\<close> only approximately. The two agree where operands and results
  are exact: at progress 0, 0.5 and 1 of the easing, and for NaN, which is all
  that the properties below use. Between, the integer an engine shows can differ by one
  from the one computed here (target 500, 200 ms after the start: 136 over the reals,
  135 in doubles), so nothing below states the value shown at such a frame. Likewise
  \<open>parseInt10\<close> gives the integer that the digits denote, where an engine gives the
  double nearest to it (Infinity beyond the range of doubles); the properties below
  take the parsed value as given, or are about NaN.
\<close>

fun js_times :: "jsnum \<Rightarrow> jsnum \<Rightarrow> jsnum" where
  "js_times (Num a) (Num b) = Num (a * b)"
| "js_times _ _ = NaN"

text \<open>\<open>Math.round\<close>: the nearest integer, a tie going up.\<close>

fun Math_round :: "jsnum \<Rightarrow> jsnum" where
  "Math_round (Num a) = Num (of_int \<lfloor>a + 1 / 2\<rfloor>)"
| "Math_round NaN = NaN"

subsection \<open>\<open>animateCounter\<close> and its \<open>update\<close>\<close>

definition duration :: real where
  "duration = 2000"

text \<open>The constants bound in \<open>update\<close>, each as a function of what it is computed from.\<close>

definition elapsed :: "real \<Rightarrow> real \<Rightarrow> real" where
  "elapsed startTime currentTime = currentTime - startTime"

definition progress :: "real \<Rightarrow> real" where
  "progress ms = min (ms / duration) 1"

definition easedProgress :: "real \<Rightarrow> real" where
  "easedProgress p = 1 - (1 - p) ^ 3"

definition current :: "real \<Rightarrow> jsnum \<Rightarrow> jsnum" where
  "current e tgt = Math_round (js_times (Num e) tgt)"

definition requestAnimationFrame :: "frame_callback \<Rightarrow> page \<Rightarrow> page" where
  "requestAnimationFrame cb pg = pg\<lparr>frame_requests := frame_requests pg @ [cb]\<rparr>"

definition update :: "ref \<Rightarrow> real \<Rightarrow> jsnum \<Rightarrow> real \<Rightarrow> page \<Rightarrow> page" where
  "update element startTime tgt currentTime pg =
     (let p = progress (elapsed startTime currentTime);
          c = current (easedProgress p) tgt;
          pg' = update_node element (\<lambda>n. n\<lparr>textContent := NumberText c\<rparr>) pg
      in if p < 1 then requestAnimationFrame (Update element startTime tgt) pg' else pg')"

definition animateCounter :: "ref \<Rightarrow> page \<Rightarrow> page" where
  "animateCounter element pg =
     (let tgt = parseInt10 (getAttribute pg element ''data-target'');
          startTime = now pg
      in requestAnimationFrame (Update element startTime tgt) pg)"

text \<open>
  The browser on a display refresh with time stamp \<open>t\<close>: the callbacks requested so far
  run with \<open>t\<close>, in the order of their requests; what they request is for the next
  refresh.
\<close>

fun run_frame_callback :: "real \<Rightarrow> frame_callback \<Rightarrow> page \<Rightarrow> page" where
  "run_frame_callback t (Update element startTime tgt) pg = update element startTime tgt t pg"

definition animation_frame :: "real \<Rightarrow> page \<Rightarrow> page" where
  "animation_frame t pg =
     fold (run_frame_callback t) (frame_requests pg) (pg\<lparr>frame_requests := []\<rparr>)"


subsection \<open>\<open>initCounterAnimations\<close>\<close>

definition counter_observe :: "ref \<Rightarrow> page \<Rightarrow> page" where
  "counter_observe el pg = pg\<lparr>counter_observed := insert el (counter_observed pg)\<rparr>"

definition counter_unobserve :: "ref \<Rightarrow> page \<Rightarrow> page" where
  "counter_unobserve el pg = pg\<lparr>counter_observed := counter_observed pg - {el}\<rparr>"

definition counter_entry :: "intersection_entry \<Rightarrow> page \<Rightarrow> page" where
  "counter_entry entry pg =
     (if isIntersecting entry then
        counter_unobserve (target entry) (animateCounter (target entry) pg)
      else pg)"

definition counter_callback :: "intersection_entry list \<Rightarrow> page \<Rightarrow> page" where
  "counter_callback entries pg = fold counter_entry entries pg"

definition initCounterAnimations :: "page \<Rightarrow> page" where
  "initCounterAnimations pg =
     (let counters = querySelectorAll
            (\<lambda>n. ''stat-number'' \<in> classList n \<and> attributes n ''data-target'' \<noteq> None) pg in
      if length counters = 0 then pg
      else fold counter_observe counters pg)"

definition counter_notify :: "intersection_entry list \<Rightarrow> page \<Rightarrow> page" where
  "counter_notify changes pg =
     counter_callback (filter (\<lambda>e. target e \<in> counter_observed pg) changes) pg"

section \<open>Mobile menu\<close>

text \<open>
  The listener on the toggle:
  \<open>toggle.classList.toggle('active'); links.classList.toggle('open');\<close>
\<close>

definition toggle_click :: "ref \<Rightarrow> ref \<Rightarrow> page \<Rightarrow> page" where
  "toggle_click toggle links pg =
     update_node links (\<lambda>n. n\<lparr>classList := classList_toggle ''open'' (classList n)\<rparr>)
       (update_node toggle (\<lambda>n. n\<lparr>classList := classList_toggle ''active'' (classList n)\<rparr>) pg)"

text \<open>
  The listener on each link:
  \<open>toggle.classList.remove('active'); links.classList.remove('open');\<close>
\<close>

definition link_click :: "ref \<Rightarrow> ref \<Rightarrow> page \<Rightarrow> page" where
  "link_click toggle links pg =
     update_node links (\<lambda>n. n\<lparr>classList := classList_remove ''open'' (classList n)\<rparr>)
       (update_node toggle (\<lambda>n. n\<lparr>classList := classList_remove ''active'' (classList n)\<rparr>) pg)"

definition addClickListener :: "click_listener \<Rightarrow> ref \<Rightarrow> page \<Rightarrow> page" where
  "addClickListener l r pg =
     pg\<lparr>click_listeners := (click_listeners pg)(r := click_listeners pg r @ [l])\<rparr>"

text \<open>\<open>element.querySelectorAll('a')\<close>: the descendants that are anchors, in tree order.\<close>

definition anchors_in :: "ref \<Rightarrow> page \<Rightarrow> ref list" where
  "anchors_in el pg =
     filter (\<lambda>r. el \<in> set (ancestors pg r) \<and> localName (nodes pg r) = ''a'') (document_order pg)"

definition initMobileMenu :: "page \<Rightarrow> page" where
  "initMobileMenu pg =
     (case getElementById pg ''navToggle'' of
        None \<Rightarrow> pg
      | Some toggle \<Rightarrow>
          (case getElementById pg ''navLinks'' of
             None \<Rightarrow> pg
           | Some links \<Rightarrow>
               fold (addClickListener (LinkClick toggle links)) (anchors_in links pg)
                 (addClickListener (ToggleClick toggle links) toggle pg)))"

fun run_click_listener :: "click_listener \<Rightarrow> page \<Rightarrow> page" where
  "run_click_listener (ToggleClick toggle links) pg = toggle_click toggle links pg"
| "run_click_listener (LinkClick toggle links) pg = link_click toggle links pg"

text \<open>
  The browser on a click on element \<open>r\<close>: the click listeners of \<open>r\<close> run, then those of
  its ancestors as the event bubbles.
\<close>

definition click :: "ref \<Rightarrow> page \<Rightarrow> page" where
  "click r pg =
     fold run_click_listener (concat (map (click_listeners pg) (r # ancestors pg r))) pg"

section \<open>Contact form\<close>

definition setTimeout :: "timer_task \<Rightarrow> real \<Rightarrow> page \<Rightarrow> page" where
  "setTimeout task delay pg = pg\<lparr>timers := timers pg @ [(now pg + delay, task)]\<rparr>"

text \<open>\<open>form.reset()\<close>: every control of the form goes back to its default value.\<close>

definition form_reset :: "ref \<Rightarrow> page \<Rightarrow> page" where
  "form_reset form pg =
     fold (\<lambda>c. update_node c (\<lambda>n. n\<lparr>control_value := control_default n\<rparr>))
       (form_controls pg form) pg"

text \<open>The label of the sent state: U+2705 (in UTF-8) and \<open>Mensaje Enviado\<close>.\<close>

definition sent_label :: string where
  "sent_label = CHR 0xE2 # CHR 0x9C # CHR 0x85 # '' Mensaje Enviado''"

definition success_gradient :: string where
  "success_gradient = ''linear-gradient(135deg, #4CAF50, #388E3C)''"

text \<open>The inner timer callback, 3000 ms after the outer one.\<close>

definition revert :: "ref \<Rightarrow> page \<Rightarrow> page" where
  "revert btn pg =
     update_node btn
       (\<lambda>n. n\<lparr>textContent := Literal ''Enviar Mensaje'', disabled := False,
              style_background := ''''\<rparr>) pg"

text \<open>The outer timer callback, 1200 ms after the submission.\<close>

definition send_done :: "ref \<Rightarrow> ref \<Rightarrow> page \<Rightarrow> page" where
  "send_done btn form pg =
     setTimeout (Revert btn) 3000
       (form_reset form
          (update_node btn
             (\<lambda>n. n\<lparr>textContent := Literal sent_label,
                    style_background := success_gradient,
                    style_opacity := ''1''\<rparr>) pg))"

definition handleFormSubmit :: "submit_event \<Rightarrow> page \<Rightarrow> submit_event \<times> page" where
  "handleFormSubmit event pg =
     (let event' = event\<lparr>defaultPrevented := True\<rparr> in
      case getElementById pg ''submitBtn'' of
        None \<Rightarrow> (event', pg)
      | Some btn \<Rightarrow>
          (case getElementById pg ''contactForm'' of
             None \<Rightarrow> (event', pg)
           | Some form \<Rightarrow>
               (event',
                setTimeout (SendDone btn form) 1200
                  (update_node btn
                     (\<lambda>n. n\<lparr>textContent := Literal ''Enviando...'', disabled := True,
                            style_opacity := ''0.7''\<rparr>) pg))))"

fun run_task :: "timer_task \<Rightarrow> page \<Rightarrow> page" where
  "run_task (SendDone btn form) pg = send_done btn form pg"
| "run_task (Revert btn) pg = revert btn pg"

text \<open>
  The browser's timers: the pending task that is due first (the one set first, among
  tasks due at the same time) runs when the clock reaches its due time.
\<close>

fun earliest :: "(real \<times> timer_task) list \<Rightarrow> (real \<times> timer_task) option" where
  "earliest [] = None"
| "earliest (x # xs) =
     (case earliest xs of
        None \<Rightarrow> Some x
      | Some y \<Rightarrow> if fst y < fst x then Some y else Some x)"

definition run_timer :: "page \<Rightarrow> page option" where
  "run_timer pg =
     (case earliest (timers pg) of
        None \<Rightarrow> None
      | Some (due, task) \<Rightarrow>
          Some (run_task task
                  (pg\<lparr>now := max (now pg) due, timers := remove1 (due, task) (timers pg)\<rparr>)))"

section \<open>Page load\<close>

text \<open>The \<open>DOMContentLoaded\<close> listener runs the four initialisers in this order.\<close>

definition DOMContentLoaded :: "page \<Rightarrow> page" where
  "DOMContentLoaded pg =
     initMobileMenu (initCounterAnimations (initScrollAnimations (initNavbar pg)))"

section \<open>The browser's events after page load\<close>

datatype browser_event =
    ScrollTo real                          \<comment> \<open>a scroll event at the given offset\<close>
  | RevealChanges "intersection_entry list"  \<comment> \<open>intersection changes seen by the reveal observer\<close>
  | CounterChanges "intersection_entry list" \<comment> \<open>intersection changes seen by the counter observer\<close>
  | Frame real                             \<comment> \<open>a display refresh with its time stamp\<close>
  | Click ref                              \<comment> \<open>a click on an element\<close>
  | Submit                                 \<comment> \<open>a submit event on the contact form\<close>
  | Timer                                  \<comment> \<open>the next pending timer fires\<close>
  | Tick real                              \<comment> \<open>the clock advances\<close>

fun dispatch :: "browser_event \<Rightarrow> page \<Rightarrow> page" where
  "dispatch (ScrollTo y) pg = scroll_event y pg"
| "dispatch (RevealChanges changes) pg = reveal_notify changes pg"
| "dispatch (CounterChanges changes) pg = counter_notify changes pg"
| "dispatch (Frame t) pg = animation_frame t pg"
| "dispatch (Click r) pg = click r pg"
| "dispatch Submit pg = snd (handleFormSubmit \<lparr>defaultPrevented = False\<rparr> pg)"
| "dispatch Timer pg = (case run_timer pg of None \<Rightarrow> pg | Some pg' \<Rightarrow> pg')"
| "dispatch (Tick t) pg = pg\<lparr>now := max (now pg) t\<rparr>"

definition run_events :: "browser_event list \<Rightarrow> page \<Rightarrow> page" where
  "run_events evs pg = fold dispatch evs pg"

section \<open>State of the reveal and of the frame loop\<close>

text \<open>An element is revealed when it carries the class \<open>visible\<close> and is no longer observed.\<close>

definition revealed :: "ref \<Rightarrow> page \<Rightarrow> bool" where
  "revealed el pg = (has_class pg el ''visible'' \<and> el \<notin> reveal_observed pg)"



section \<open>Sample documents\<close>

text \<open>
  A document without elements, and documents with a menu (its toggle outside the panel,
  and its toggle a link of the panel, closed and open), an element to reveal, a contact
  form (its button with and without an inline background) and two counters, one with a
  numeric target and one without.
\<close>

definition empty_node :: node where
  "empty_node =
     \<lparr>localName = ''div'', classList = {}, attributes = Map.empty, textContent = Literal [],
      disabled = False, style_opacity = [], style_background = [],
      control_value = [], control_default = []\<rparr>"

definition empty_page :: page where
  "empty_page =
     \<lparr>nodes = (\<lambda>_. empty_node), ids = Map.empty, document_order = [],
      ancestors = (\<lambda>_. []), form_controls = (\<lambda>_. []), scrollY = 0, now = 0,
      scroll_listeners = [], click_listeners = (\<lambda>_. []), reveal_observed = {},
      counter_observed = {}, frame_requests = [], timers = []\<rparr>"




definition reveal_page :: page where
  "reveal_page =
     empty_page\<lparr>nodes := (\<lambda>_. empty_node)(3 := empty_node\<lparr>classList := {''animate-on-scroll''}\<rparr>),
                document_order := [3]\<rparr>"

definition form_page :: page where
  "form_page =
     empty_page\<lparr>nodes := (\<lambda>_. empty_node)
                  (5 := empty_node\<lparr>localName := ''button'', textContent := Literal ''Enviar Mensaje''\<rparr>,
                   7 := empty_node\<lparr>localName := ''input'', control_value := ''hola'',
                                    control_default := ''Chile''\<rparr>),
                ids := [''submitBtn'' \<mapsto> 5, ''contactForm'' \<mapsto> 6],
                document_order := [6, 7, 5],
                ancestors := (\<lambda>_. [])(7 := [6], 5 := [6]),
                form_controls := (\<lambda>_. [])(6 := [7, 5])\<rparr>"

definition styled_form_page :: page where
  "styled_form_page =
     update_node 5 (\<lambda>n. n\<lparr>style_background := ''red''\<rparr>) form_page"


section \<open>Properties of the navbar\<close>

lemma onScroll_fields [simp]:
  "scrollY (onScroll r pg) = scrollY pg"
  "scroll_listeners (onScroll r pg) = scroll_listeners pg"
  by (simp_all add: onScroll_def update_node_def)

lemma fold_onScroll_fields [simp]:
  "scrollY (fold onScroll rs pg) = scrollY pg"
  "scroll_listeners (fold onScroll rs pg) = scroll_listeners pg"
  by (induction rs arbitrary: pg) simp_all

lemma onScroll_idem: "onScroll r (onScroll r pg) = onScroll r pg"
  by (simp add: onScroll_def update_node_def classList_toggle_force_def)

lemma has_class_onScroll:
  "has_class (onScroll r pg) r ''scrolled'' = (scrollY pg > 60)"
  by (simp add: onScroll_def update_node_def classList_toggle_force_def has_class_def)

lemma fold_onScroll_closed:
  "fold onScroll rs pg =
     pg\<lparr>nodes := (\<lambda>r. if r \<in> set rs
        then (nodes pg r)\<lparr>classList :=
               classList_toggle_force ''scrolled'' (scrollY pg > 60) (classList (nodes pg r))\<rparr>
        else nodes pg r)\<rparr>"
proof (induction rs arbitrary: pg)
  case Nil
  show ?case by simp
next
  case (Cons a rs)
  show ?case
    by (simp add: Cons.IH)
       (auto simp: onScroll_def update_node_def classList_toggle_force_def fun_eq_iff)
qed

lemma scroll_event_idem:
  "scroll_event y (scroll_event y pg) = scroll_event y pg"
  by (simp add: scroll_event_def fold_onScroll_closed)
     (auto simp: fun_eq_iff classList_toggle_force_def)

lemma scroll_event_has_class:
  "r \<in> set (scroll_listeners pg) \<Longrightarrow>
     has_class (scroll_event y pg) r ''scrolled'' = (y > 60)"
  by (simp add: scroll_event_def fold_onScroll_closed has_class_def classList_toggle_force_def)

text \<open>
  C1. After the scroll handler has run, the navbar carries the class \<open>scrolled\<close> exactly
  when the vertical offset is strictly greater than 60; at offset 60 it does not. Running
  the handler (or delivering the scroll event) twice at one offset gives the same page
  as doing it once. This holds for the handler alone and for the page after
  \<open>initNavbar\<close> under scroll events.
\<close>

theorem navbar_scrolled_iff:
  "has_class (onScroll navbar pg) navbar ''scrolled'' = (scrollY pg > 60)
   \<and> \<not> has_class (onScroll navbar (pg\<lparr>scrollY := 60\<rparr>)) navbar ''scrolled''
   \<and> onScroll navbar (onScroll navbar pg) = onScroll navbar pg
   \<and> (getElementById pg ''navbar'' = Some navbar \<longrightarrow>
        has_class (initNavbar pg) navbar ''scrolled'' = (scrollY pg > 60)
        \<and> has_class (scroll_event y (initNavbar pg)) navbar ''scrolled'' = (y > 60)
        \<and> scroll_event y (scroll_event y (initNavbar pg)) = scroll_event y (initNavbar pg))"
proof -
  have a: "has_class (onScroll navbar pg) navbar ''scrolled'' = (scrollY pg > 60)"
    by (rule has_class_onScroll)
  have b: "\<not> has_class (onScroll navbar (pg\<lparr>scrollY := 60\<rparr>)) navbar ''scrolled''"
    by (simp add: has_class_onScroll)
  have c: "onScroll navbar (onScroll navbar pg) = onScroll navbar pg"
    by (rule onScroll_idem)
  have d: "has_class (initNavbar pg) navbar ''scrolled'' = (scrollY pg > 60)"
    and e: "has_class (scroll_event y (initNavbar pg)) navbar ''scrolled'' = (y > 60)"
    if "getElementById pg ''navbar'' = Some navbar"
    using that by (simp_all add: initNavbar_def has_class_onScroll scroll_event_has_class)
  have f: "scroll_event y (scroll_event y (initNavbar pg)) = scroll_event y (initNavbar pg)"
    by (rule scroll_event_idem)
  from a b c d e f show ?thesis by blast
qed

theorem navbar_scrolled_iff_witness:
  "getElementById (empty_page\<lparr>ids := [''navbar'' \<mapsto> 1]\<rparr>) ''navbar'' = Some 1
   \<and> \<not> has_class (scroll_event 60 (initNavbar (empty_page\<lparr>ids := [''navbar'' \<mapsto> 1]\<rparr>))) 1 ''scrolled''
   \<and> has_class (scroll_event 61 (initNavbar (empty_page\<lparr>ids := [''navbar'' \<mapsto> 1]\<rparr>))) 1 ''scrolled''"
proof -
  let ?pg = "empty_page\<lparr>ids := [''navbar'' \<mapsto> 1]\<rparr>"
  have h: "getElementById ?pg ''navbar'' = Some 1"
    by (simp add: getElementById_def)
  from h navbar_scrolled_iff [of 1 ?pg 60] navbar_scrolled_iff [of 1 ?pg 61]
  show ?thesis by simp
qed

section \<open>Properties of the easing\<close>


section \<open>Properties of the mobile menu\<close>






lemma toggle_click_fields [simp]:
  "click_listeners (toggle_click t l pg) = click_listeners pg"
  "ancestors (toggle_click t l pg) = ancestors pg"
  by (simp_all add: toggle_click_def update_node_def)

lemma addClickListener_fields [simp]:
  "nodes (addClickListener L r pg) = nodes pg"
  "ancestors (addClickListener L r pg) = ancestors pg"
  "document_order (addClickListener L r pg) = document_order pg"
  by (simp_all add: addClickListener_def)

lemma fold_addClickListener_fields [simp]:
  "nodes (fold (addClickListener L) rs pg) = nodes pg"
  "ancestors (fold (addClickListener L) rs pg) = ancestors pg"
  by (induction rs arbitrary: pg) simp_all











section \<open>Properties of the scroll animations\<close>

lemma fold_preserves:
  assumes "\<And>x s. P s \<Longrightarrow> P (f x s)" and "P s"
  shows "P (fold f xs s)"
  using assms(2) by (induction xs arbitrary: s) (simp_all add: assms(1))

lemma revealed_update_node:
  assumes "revealed el pg"
    and "\<And>n. ''visible'' \<in> classList n \<Longrightarrow> ''visible'' \<in> classList (f n)"
  shows "revealed el (update_node r f pg)"
  using assms by (auto simp: revealed_def has_class_def update_node_def)

lemma revealed_cong:
  assumes "revealed el pg" and "nodes pg' = nodes pg" and "reveal_observed pg' = reveal_observed pg"
  shows "revealed el pg'"
  using assms by (simp add: revealed_def has_class_def)

lemma revealed_onScroll: "revealed el pg \<Longrightarrow> revealed el (onScroll r pg)"
  unfolding onScroll_def
  by (rule revealed_update_node) (auto simp: classList_toggle_force_def)

lemma revealed_scroll_event: "revealed el pg \<Longrightarrow> revealed el (scroll_event y pg)"
  unfolding scroll_event_def
  by (rule fold_preserves) (auto intro: revealed_onScroll revealed_cong)

lemma revealed_reveal_entry: "revealed el pg \<Longrightarrow> revealed el (reveal_entry e pg)"
  by (auto simp: reveal_entry_def revealed_def has_class_def update_node_def
      reveal_unobserve_def classList_add_def)

lemma revealed_reveal_callback: "revealed el pg \<Longrightarrow> revealed el (reveal_callback es pg)"
  unfolding reveal_callback_def by (rule fold_preserves) (auto intro: revealed_reveal_entry)

lemma revealed_reveal_notify: "revealed el pg \<Longrightarrow> revealed el (reveal_notify es pg)"
  unfolding reveal_notify_def by (rule revealed_reveal_callback)

lemma revealed_requestAnimationFrame:
  "revealed el pg \<Longrightarrow> revealed el (requestAnimationFrame cb pg)"
  by (erule revealed_cong) (simp_all add: requestAnimationFrame_def)

lemma revealed_update: "revealed el pg \<Longrightarrow> revealed el (update r s tg t pg)"
  by (auto simp: update_def Let_def intro!: revealed_requestAnimationFrame revealed_update_node)

lemma revealed_animation_frame: "revealed el pg \<Longrightarrow> revealed el (animation_frame t pg)"
  unfolding animation_frame_def
proof (rule fold_preserves)
  fix cb s assume "revealed el s"
  then show "revealed el (run_frame_callback t cb s)"
    by (cases cb) (simp add: revealed_update)
next
  assume "revealed el pg"
  then show "revealed el (pg\<lparr>frame_requests := []\<rparr>)"
    by (rule revealed_cong) simp_all
qed

lemma revealed_counter_entry: "revealed el pg \<Longrightarrow> revealed el (counter_entry e pg)"
  by (auto simp: counter_entry_def counter_unobserve_def animateCounter_def Let_def
      requestAnimationFrame_def elim: revealed_cong)

lemma revealed_counter_notify: "revealed el pg \<Longrightarrow> revealed el (counter_notify es pg)"
  unfolding counter_notify_def counter_callback_def
  by (rule fold_preserves) (auto intro: revealed_counter_entry)

lemma revealed_toggle_click: "revealed el pg \<Longrightarrow> revealed el (toggle_click t l pg)"
  unfolding toggle_click_def
  by (intro revealed_update_node) (auto simp: classList_toggle_def)

lemma revealed_link_click: "revealed el pg \<Longrightarrow> revealed el (link_click t l pg)"
  unfolding link_click_def
  by (intro revealed_update_node) (auto simp: classList_remove_def)

lemma revealed_click: "revealed el pg \<Longrightarrow> revealed el (click r pg)"
  unfolding click_def
proof (rule fold_preserves)
  fix l s assume "revealed el s"
  then show "revealed el (run_click_listener l s)"
    by (cases l) (simp_all add: revealed_toggle_click revealed_link_click)
qed

lemma revealed_setTimeout: "revealed el pg \<Longrightarrow> revealed el (setTimeout task d pg)"
  by (erule revealed_cong) (simp_all add: setTimeout_def)

lemma revealed_form_reset: "revealed el pg \<Longrightarrow> revealed el (form_reset f pg)"
  unfolding form_reset_def
  by (rule fold_preserves) (auto intro: revealed_update_node)

lemma revealed_handleFormSubmit:
  "revealed el pg \<Longrightarrow> revealed el (snd (handleFormSubmit ev pg))"
  by (auto simp: handleFormSubmit_def Let_def split: option.splits
      intro!: revealed_setTimeout revealed_update_node)

lemma revealed_run_task: "revealed el pg \<Longrightarrow> revealed el (run_task task pg)"
  by (cases task)
     (auto simp: send_done_def revert_def
       intro!: revealed_setTimeout revealed_form_reset revealed_update_node)

lemma revealed_run_timer:
  "revealed el pg \<Longrightarrow> run_timer pg = Some pg' \<Longrightarrow> revealed el pg'"
  by (auto simp: run_timer_def split: option.splits prod.splits
      intro!: revealed_run_task elim: revealed_cong)

lemma revealed_dispatch: "revealed el pg \<Longrightarrow> revealed el (dispatch ev pg)"
proof (cases ev)
  case Timer
  assume "revealed el pg"
  then show ?thesis
    using Timer by (auto split: option.splits dest: revealed_run_timer)
next
  case (Tick t)
  assume "revealed el pg"
  then show ?thesis
    using Tick by (auto elim: revealed_cong)
qed (simp_all add: revealed_scroll_event revealed_reveal_notify revealed_counter_notify
      revealed_animation_frame revealed_click revealed_handleFormSubmit)

lemma revealed_run_events: "revealed el pg \<Longrightarrow> revealed el (run_events evs pg)"
  unfolding run_events_def by (rule fold_preserves) (auto intro: revealed_dispatch)

lemma reveal_entry_revealed:
  "isIntersecting e \<Longrightarrow> revealed (target e) (reveal_entry e pg)"
  by (simp add: reveal_entry_def revealed_def has_class_def update_node_def
      reveal_unobserve_def classList_add_def)

lemma reveal_callback_revealed:
  assumes "e \<in> set es" and "isIntersecting e"
  shows "revealed (target e) (reveal_callback es pg)"
proof -
  from assms(1) obtain xs ys where es: "es = xs @ e # ys"
    by (auto dest: split_list)
  have "revealed (target e) (reveal_entry e (fold reveal_entry xs pg))"
    using assms(2) by (rule reveal_entry_revealed)
  then have "revealed (target e) (fold reveal_entry ys (reveal_entry e (fold reveal_entry xs pg)))"
    by (rule fold_preserves [rotated]) (rule revealed_reveal_entry)
  then show ?thesis
    by (simp add: reveal_callback_def es)
qed

lemma revealed_not_delivered:
  assumes "revealed el pg" and "\<forall>e \<in> set changes. target e = el"
  shows "reveal_delivered changes pg = []"
  using assms by (auto simp: reveal_delivered_def revealed_def filter_empty_conv)

text \<open>
  C2. An intersecting entry handed to the reveal callback leaves its target with the
  class \<open>visible\<close> and no longer observed, also at the end of the batch the entry came
  in. From then on, whatever events the browser delivers after page load (scrolls,
  intersection changes of either observer, display refreshes, clicks, submissions,
  timers), the element keeps the class \<open>visible\<close> and stays unobserved, so that no
  entry for it reaches the callback again: an intersection change of that element alone
  delivers nothing and leaves the page as it is.
\<close>

theorem reveal_at_most_once:
  "(isIntersecting entry \<longrightarrow> revealed (target entry) (reveal_entry entry pg))
   \<and> (entry \<in> set entries \<and> isIntersecting entry \<longrightarrow>
        revealed (target entry) (reveal_callback entries pg))
   \<and> (revealed el pg \<longrightarrow>
        has_class (run_events evs pg) el ''visible''
        \<and> el \<notin> reveal_observed (run_events evs pg)
        \<and> el \<notin> target ` set (reveal_delivered changes (run_events evs pg))
        \<and> ((\<forall>e \<in> set changes. target e = el) \<longrightarrow>
              reveal_delivered changes (run_events evs pg) = []
              \<and> reveal_notify changes (run_events evs pg) = run_events evs pg))"
proof (intro conjI impI)
  assume "isIntersecting entry"
  then show "revealed (target entry) (reveal_entry entry pg)"
    by (rule reveal_entry_revealed)
next
  assume "entry \<in> set entries \<and> isIntersecting entry"
  then show "revealed (target entry) (reveal_callback entries pg)"
    by (simp add: reveal_callback_revealed)
next
  assume "revealed el pg"
  then have r: "revealed el (run_events evs pg)"
    by (rule revealed_run_events)
  then show "has_class (run_events evs pg) el ''visible''"
    and "el \<notin> reveal_observed (run_events evs pg)"
    by (simp_all add: revealed_def)
  from r show "el \<notin> target ` set (reveal_delivered changes (run_events evs pg))"
    by (auto simp: reveal_delivered_def revealed_def)
  assume "\<forall>e \<in> set changes. target e = el"
  with r have d: "reveal_delivered changes (run_events evs pg) = []"
    by (rule revealed_not_delivered)
  then show "reveal_delivered changes (run_events evs pg) = []" .
  from d show "reveal_notify changes (run_events evs pg) = run_events evs pg"
    by (simp add: reveal_notify_def reveal_callback_def)
qed

theorem reveal_at_most_once_witness:
  "revealed 3 (reveal_notify [\<lparr>target = 3, isIntersecting = True\<rparr>] (initScrollAnimations reveal_page))
   \<and> has_class
        (run_events [RevealChanges [\<lparr>target = 3, isIntersecting = True\<rparr>], ScrollTo 100]
           (reveal_notify [\<lparr>target = 3, isIntersecting = True\<rparr>] (initScrollAnimations reveal_page)))
        3 ''visible''
   \<and> reveal_notify [\<lparr>target = 3, isIntersecting = True\<rparr>]
        (reveal_notify [\<lparr>target = 3, isIntersecting = True\<rparr>] (initScrollAnimations reveal_page))
      = reveal_notify [\<lparr>target = 3, isIntersecting = True\<rparr>] (initScrollAnimations reveal_page)"
proof -
  let ?e = "\<lparr>target = 3, isIntersecting = True\<rparr>"
  let ?pg0 = "initScrollAnimations reveal_page"
  let ?pg1 = "reveal_notify [?e] ?pg0"
  have obs: "reveal_observed ?pg0 = {3}"
    by (simp add: initScrollAnimations_def querySelectorAll_def reveal_page_def empty_page_def
        reveal_observe_def)
  then have n: "?pg1 = reveal_callback [?e] ?pg0"
    by (simp add: reveal_notify_def reveal_delivered_def)
  have h: "?e \<in> set [?e] \<and> isIntersecting ?e"
    by simp
  with reveal_at_most_once [of ?e ?pg0 "[?e]"]
  have r: "revealed 3 ?pg1"
    unfolding n by simp
  have c: "\<forall>e \<in> set [?e]. target e = 3"
    by simp
  from r c reveal_at_most_once [of ?e ?pg1 "[?e]" 3 "[RevealChanges [?e], ScrollTo 100]" "[?e]"]
    reveal_at_most_once [of ?e ?pg1 "[?e]" 3 "[]" "[?e]"]
  show ?thesis
    by (simp add: run_events_def)
qed

section \<open>Properties of the early returns\<close>

text \<open>
  The claim C8 as stated fails for the form handler: with the submit button absent, it
  has already called \<open>event.preventDefault()\<close> when it returns, so the event it was
  given is not the event it leaves.
\<close>

theorem absent_elements_counterexample:
  "getElementById empty_page ''submitBtn'' = None
   \<and> handleFormSubmit \<lparr>defaultPrevented = False\<rparr> empty_page
       \<noteq> (\<lparr>defaultPrevented = False\<rparr>, empty_page)"
  by (simp add: handleFormSubmit_def getElementById_def empty_page_def)

text \<open>
  C8, amended. Each initialiser returns the page unchanged when an element or a
  collection it needs is absent. The form handler, when the button or the form is
  absent, leaves the page unchanged too, but has suppressed the default action of the
  submit event before it returns.
\<close>

theorem absent_elements_no_op:
  "(getElementById pg ''navbar'' = None \<longrightarrow> initNavbar pg = pg)
   \<and> (querySelectorAll (\<lambda>n. ''animate-on-scroll'' \<in> classList n) pg = [] \<longrightarrow>
        initScrollAnimations pg = pg)
   \<and> (querySelectorAll
         (\<lambda>n. ''stat-number'' \<in> classList n \<and> attributes n ''data-target'' \<noteq> None) pg = [] \<longrightarrow>
        initCounterAnimations pg = pg)
   \<and> (getElementById pg ''navToggle'' = None \<or> getElementById pg ''navLinks'' = None \<longrightarrow>
        initMobileMenu pg = pg)
   \<and> (getElementById pg ''submitBtn'' = None \<or> getElementById pg ''contactForm'' = None \<longrightarrow>
        handleFormSubmit event pg = (event\<lparr>defaultPrevented := True\<rparr>, pg))"
  by (auto simp: initNavbar_def initScrollAnimations_def initCounterAnimations_def
      initMobileMenu_def handleFormSubmit_def Let_def split: option.splits)

theorem absent_elements_no_op_witness:
  "getElementById empty_page ''navbar'' = None
   \<and> initNavbar empty_page = empty_page
   \<and> initScrollAnimations empty_page = empty_page
   \<and> initCounterAnimations empty_page = empty_page
   \<and> initMobileMenu empty_page = empty_page
   \<and> handleFormSubmit \<lparr>defaultPrevented = False\<rparr> empty_page
       = (\<lparr>defaultPrevented = True\<rparr>, empty_page)"
proof -
  have h: "getElementById empty_page ''navbar'' = None"
    "querySelectorAll (\<lambda>n. ''animate-on-scroll'' \<in> classList n) empty_page = []"
    "querySelectorAll
       (\<lambda>n. ''stat-number'' \<in> classList n \<and> attributes n ''data-target'' \<noteq> None) empty_page = []"
    "getElementById empty_page ''navToggle'' = None"
    "getElementById empty_page ''submitBtn'' = None"
    by (simp_all add: getElementById_def querySelectorAll_def empty_page_def)
  from h absent_elements_no_op [of empty_page "\<lparr>defaultPrevented = False\<rparr>"]
  show ?thesis by simp
qed

section \<open>Properties of the contact form\<close>

lemma fold_update_node_closed:
  assumes "\<And>n. g (g n) = g n"
  shows "fold (\<lambda>c. update_node c g) cs pg =
           pg\<lparr>nodes := (\<lambda>r. if r \<in> set cs then g (nodes pg r) else nodes pg r)\<rparr>"
proof (induction cs arbitrary: pg)
  case Nil
  show ?case by simp
next
  case (Cons a cs)
  show ?case
    by (simp add: Cons.IH) (auto simp: update_node_def fun_eq_iff assms)
qed

lemma form_reset_closed:
  "form_reset f pg =
     pg\<lparr>nodes := (\<lambda>r. if r \<in> set (form_controls pg f)
                        then (nodes pg r)\<lparr>control_value := control_default (nodes pg r)\<rparr>
                        else nodes pg r)\<rparr>"
  unfolding form_reset_def by (subst fold_update_node_closed) simp_all

text \<open>The three states of one submission that starts with no timer pending.\<close>

lemma submission_cycle:
  assumes b: "getElementById pg ''submitBtn'' = Some btn"
    and f: "getElementById pg ''contactForm'' = Some form"
    and idle: "timers pg = []"
  defines "pg1 \<equiv> update_node btn
             (\<lambda>n. n\<lparr>textContent := Literal ''Enviando...'', disabled := True,
                    style_opacity := ''0.7''\<rparr>) pg"
  defines "pg2 \<equiv> form_reset form (update_node btn
             (\<lambda>n. n\<lparr>textContent := Literal sent_label, style_background := success_gradient,
                    style_opacity := ''1''\<rparr>) (pg1\<lparr>now := now pg + 1200\<rparr>))"
  defines "pg3 \<equiv> revert btn (pg2\<lparr>now := now pg + 4200\<rparr>)"
  shows "handleFormSubmit event pg =
           (event\<lparr>defaultPrevented := True\<rparr>, pg1\<lparr>timers := [(now pg + 1200, SendDone btn form)]\<rparr>)"
    and "run_timer (pg1\<lparr>timers := [(now pg + 1200, SendDone btn form)]\<rparr>)
           = Some (pg2\<lparr>timers := [(now pg + 4200, Revert btn)]\<rparr>)"
    and "run_timer (pg2\<lparr>timers := [(now pg + 4200, Revert btn)]\<rparr>) = Some pg3"
    and "run_timer pg3 = None"
proof -
  have t1: "timers pg1 = []" and n1: "now pg1 = now pg"
    by (simp_all add: pg1_def update_node_def idle)
  show "handleFormSubmit event pg =
           (event\<lparr>defaultPrevented := True\<rparr>, pg1\<lparr>timers := [(now pg + 1200, SendDone btn form)]\<rparr>)"
    using b f by (simp add: handleFormSubmit_def Let_def setTimeout_def pg1_def update_node_def idle)
  have t2: "timers pg2 = []" and n2: "now pg2 = now pg + 1200"
    by (simp_all add: pg2_def update_node_def t1 form_reset_closed)
  show "run_timer (pg1\<lparr>timers := [(now pg + 1200, SendDone btn form)]\<rparr>)
           = Some (pg2\<lparr>timers := [(now pg + 4200, Revert btn)]\<rparr>)"
    by (simp add: run_timer_def send_done_def setTimeout_def n1 t1 pg2_def update_node_def
        form_reset_closed add.commute cong: if_cong)
  show "run_timer (pg2\<lparr>timers := [(now pg + 4200, Revert btn)]\<rparr>) = Some pg3"
    by (simp add: run_timer_def n2 pg3_def revert_def update_node_def)
       (rule page.equality; simp add: t2)
  show "run_timer pg3 = None"
    by (simp add: run_timer_def pg3_def revert_def update_node_def t2)
qed

text \<open>What holds in the three states.\<close>

lemma submission_states:
  assumes b: "getElementById pg ''submitBtn'' = Some btn"
    and f: "getElementById pg ''contactForm'' = Some form"
    and idle: "timers pg = []"
  shows "\<exists>pg1 pg2 pg3.
     handleFormSubmit event pg = (event\<lparr>defaultPrevented := True\<rparr>, pg1)
     \<and> run_timer pg1 = Some pg2 \<and> run_timer pg2 = Some pg3 \<and> run_timer pg3 = None
     \<and> now pg1 = now pg \<and> now pg2 = now pg + 1200 \<and> now pg3 = now pg + 4200
     \<and> nodes pg1 btn = (nodes pg btn)\<lparr>textContent := Literal ''Enviando...'', disabled := True,
                                       style_opacity := ''0.7''\<rparr>
     \<and> textContent (nodes pg2 btn) = Literal sent_label
     \<and> style_background (nodes pg2 btn) = success_gradient
     \<and> style_opacity (nodes pg2 btn) = ''1''
     \<and> disabled (nodes pg2 btn)
     \<and> (\<forall>c \<in> set (form_controls pg form).
           control_value (nodes pg2 c) = control_default (nodes pg c))
     \<and> nodes pg3 = (nodes pg2)(btn := (nodes pg2 btn)\<lparr>textContent := Literal ''Enviar Mensaje'',
                                       disabled := False, style_background := []\<rparr>)
     \<and> pg3 = revert btn (pg2\<lparr>now := now pg + 4200, timers := []\<rparr>)"
proof -
  let ?q1 = "update_node btn
             (\<lambda>n. n\<lparr>textContent := Literal ''Enviando...'', disabled := True,
                    style_opacity := ''0.7''\<rparr>) pg"
  let ?q2 = "form_reset form (update_node btn
             (\<lambda>n. n\<lparr>textContent := Literal sent_label, style_background := success_gradient,
                    style_opacity := ''1''\<rparr>) (?q1\<lparr>now := now pg + 1200\<rparr>))"
  let ?pg1 = "?q1\<lparr>timers := [(now pg + 1200, SendDone btn form)]\<rparr>"
  let ?pg2 = "?q2\<lparr>timers := [(now pg + 4200, Revert btn)]\<rparr>"
  let ?pg3 = "revert btn (?q2\<lparr>now := now pg + 4200\<rparr>)"
  have 1: "handleFormSubmit event pg = (event\<lparr>defaultPrevented := True\<rparr>, ?pg1)"
    by (rule submission_cycle(1) [OF assms])
  have 2: "run_timer ?pg1 = Some ?pg2"
    by (rule submission_cycle(2) [OF assms])
  have 3: "run_timer ?pg2 = Some ?pg3"
    by (rule submission_cycle(3) [OF assms])
  have 4: "run_timer ?pg3 = None"
    by (rule submission_cycle(4) [OF assms])
  have 5: "now ?pg1 = now pg \<and> now ?pg2 = now pg + 1200 \<and> now ?pg3 = now pg + 4200"
    by (simp add: update_node_def form_reset_closed revert_def)
  have 6: "nodes ?pg1 btn = (nodes pg btn)\<lparr>textContent := Literal ''Enviando...'',
             disabled := True, style_opacity := ''0.7''\<rparr>"
    by (simp add: update_node_def)
  have 7: "textContent (nodes ?pg2 btn) = Literal sent_label
     \<and> style_background (nodes ?pg2 btn) = success_gradient
     \<and> style_opacity (nodes ?pg2 btn) = ''1''
     \<and> disabled (nodes ?pg2 btn)"
    by (simp add: update_node_def form_reset_closed)
  have 8: "\<forall>c \<in> set (form_controls pg form).
           control_value (nodes ?pg2 c) = control_default (nodes pg c)"
    by (simp add: update_node_def form_reset_closed)
  have 9: "nodes ?pg3 = (nodes ?pg2)(btn := (nodes ?pg2 btn)\<lparr>textContent :=
             Literal ''Enviar Mensaje'', disabled := False, style_background := []\<rparr>)"
    by (simp add: revert_def update_node_def)
  have 10: "?pg3 = revert btn (?pg2\<lparr>now := now pg + 4200, timers := []\<rparr>)"
    by (simp add: revert_def update_node_def form_reset_closed idle)
  from 1 2 3 4 5 6 7 8 9 10 show ?thesis
    by blast
qed

text \<open>
  The claim C7 as stated fails where it says that the fields are cleared:
  \<open>form.reset()\<close> puts every control back to its default value, and a control whose
  default is not empty is not empty 1200 ms after the submission.
\<close>

theorem form_fields_cleared_counterexample:
  "getElementById form_page ''submitBtn'' = Some 5
   \<and> getElementById form_page ''contactForm'' = Some 6
   \<and> 7 \<in> set (form_controls form_page 6)
   \<and> control_default (nodes form_page 7) = ''Chile''
   \<and> now (run_events [Submit, Timer] form_page) = now form_page + 1200
   \<and> control_value (nodes (run_events [Submit, Timer] form_page) 7) \<noteq> []"
proof -
  have h: "getElementById form_page ''submitBtn'' = Some 5"
    "getElementById form_page ''contactForm'' = Some 6"
    "timers form_page = []"
    by (simp_all add: form_page_def getElementById_def empty_page_def)
  have d: "7 \<in> set (form_controls form_page 6)" "control_default (nodes form_page 7) = ''Chile''"
    by (simp_all add: form_page_def empty_page_def empty_node_def)
  from submission_states [OF h, of "\<lparr>defaultPrevented = False\<rparr>"]
  obtain pg1 pg2 where s:
    "handleFormSubmit \<lparr>defaultPrevented = False\<rparr> form_page = (\<lparr>defaultPrevented = True\<rparr>, pg1)"
    "run_timer pg1 = Some pg2" "now pg2 = now form_page + 1200"
    "\<forall>c \<in> set (form_controls form_page 6).
        control_value (nodes pg2 c) = control_default (nodes form_page c)"
    by auto
  have r: "run_events [Submit, Timer] form_page = pg2"
    by (simp add: run_events_def s(1,2))
  from s(4) d have "control_value (nodes pg2 7) = ''Chile''"
    by auto
  with h d s(3) show ?thesis
    unfolding r by simp
qed

text \<open>
  C7, amended. With the button and the form present and no timer pending, the handler
  at once sets the button's text to \<open>Enviando...\<close>, disables it and sets its opacity to
  0.7. The first timer fires 1200 ms after the submission: the text is the success
  label, the background the success gradient, the opacity 1, and every control of the
  form has its default value (so a control without a default is empty). The second timer
  fires 3000 ms later, 4200 ms after the submission: the text is \<open>Enviar Mensaje\<close>, the
  button is enabled and its inline background is empty. Both timers fire, in this
  order, and no timer is left.
\<close>

theorem form_submission_cycle:
  assumes "getElementById pg ''submitBtn'' = Some btn"
    and "getElementById pg ''contactForm'' = Some form"
    and "timers pg = []"
  shows "\<exists>pg1 pg2 pg3.
     handleFormSubmit event pg = (event\<lparr>defaultPrevented := True\<rparr>, pg1)
     \<and> now pg1 = now pg
     \<and> textContent (nodes pg1 btn) = Literal ''Enviando...''
     \<and> disabled (nodes pg1 btn)
     \<and> style_opacity (nodes pg1 btn) = ''0.7''
     \<and> run_timer pg1 = Some pg2
     \<and> now pg2 = now pg + 1200
     \<and> textContent (nodes pg2 btn) = Literal sent_label
     \<and> style_background (nodes pg2 btn) = success_gradient
     \<and> style_opacity (nodes pg2 btn) = ''1''
     \<and> (\<forall>c \<in> set (form_controls pg form).
           control_value (nodes pg2 c) = control_default (nodes pg c)
           \<and> (control_default (nodes pg c) = [] \<longrightarrow> control_value (nodes pg2 c) = []))
     \<and> run_timer pg2 = Some pg3
     \<and> now pg3 = now pg + 4200
     \<and> textContent (nodes pg3 btn) = Literal ''Enviar Mensaje''
     \<and> \<not> disabled (nodes pg3 btn)
     \<and> style_background (nodes pg3 btn) = []
     \<and> run_timer pg3 = None"
proof -
  from submission_states [OF assms, of event]
  obtain pg1 pg2 pg3 where s:
    "handleFormSubmit event pg = (event\<lparr>defaultPrevented := True\<rparr>, pg1)"
    "run_timer pg1 = Some pg2" "run_timer pg2 = Some pg3" "run_timer pg3 = None"
    "now pg1 = now pg" "now pg2 = now pg + 1200" "now pg3 = now pg + 4200"
    "nodes pg1 btn = (nodes pg btn)\<lparr>textContent := Literal ''Enviando...'', disabled := True,
                                       style_opacity := ''0.7''\<rparr>"
    "textContent (nodes pg2 btn) = Literal sent_label"
    "style_background (nodes pg2 btn) = success_gradient"
    "style_opacity (nodes pg2 btn) = ''1''"
    "\<forall>c \<in> set (form_controls pg form).
           control_value (nodes pg2 c) = control_default (nodes pg c)"
    "nodes pg3 = (nodes pg2)(btn := (nodes pg2 btn)\<lparr>textContent := Literal ''Enviar Mensaje'',
                                       disabled := False, style_background := []\<rparr>)"
    by blast
  show ?thesis
    by (intro exI [of _ pg1] exI [of _ pg2] exI [of _ pg3]) (simp add: s)
qed

theorem form_submission_cycle_witness:
  "getElementById form_page ''submitBtn'' = Some 5
   \<and> getElementById form_page ''contactForm'' = Some 6
   \<and> timers form_page = []
   \<and> (\<exists>pg1 pg2 pg3.
        handleFormSubmit \<lparr>defaultPrevented = False\<rparr> form_page = (\<lparr>defaultPrevented = True\<rparr>, pg1)
        \<and> textContent (nodes pg1 5) = Literal ''Enviando...''
        \<and> run_timer pg1 = Some pg2
        \<and> now pg2 = 1200
        \<and> textContent (nodes pg2 5) = Literal sent_label
        \<and> control_value (nodes pg2 7) = ''Chile''
        \<and> control_value (nodes pg2 5) = []
        \<and> run_timer pg2 = Some pg3
        \<and> now pg3 = 4200
        \<and> textContent (nodes pg3 5) = Literal ''Enviar Mensaje''
        \<and> run_timer pg3 = None)"
proof -
  have h: "getElementById form_page ''submitBtn'' = Some 5"
    "getElementById form_page ''contactForm'' = Some 6"
    "timers form_page = []"
    by (simp_all add: form_page_def getElementById_def empty_page_def)
  have d: "form_controls form_page 6 = [7, 5]" "control_default (nodes form_page 7) = ''Chile''"
    "control_default (nodes form_page 5) = []" "now form_page = 0"
    by (simp_all add: form_page_def empty_page_def empty_node_def)
  from form_submission_cycle [OF h, of "\<lparr>defaultPrevented = False\<rparr>"]
  obtain pg1 pg2 pg3 where s:
    "handleFormSubmit \<lparr>defaultPrevented = False\<rparr> form_page = (\<lparr>defaultPrevented = True\<rparr>, pg1)"
    "textContent (nodes pg1 5) = Literal ''Enviando...''"
    "run_timer pg1 = Some pg2" "now pg2 = now form_page + 1200"
    "textContent (nodes pg2 5) = Literal sent_label"
    "\<forall>c \<in> set (form_controls form_page 6).
           control_value (nodes pg2 c) = control_default (nodes form_page c)
           \<and> (control_default (nodes form_page c) = [] \<longrightarrow> control_value (nodes pg2 c) = [])"
    "run_timer pg2 = Some pg3" "now pg3 = now form_page + 4200"
    "textContent (nodes pg3 5) = Literal ''Enviar Mensaje''" "run_timer pg3 = None"
    by auto
  from s(6) d have "control_value (nodes pg2 7) = ''Chile''" "control_value (nodes pg2 5) = []"
    by simp_all
  with h s d(4) show ?thesis
    by (intro conjI exI [of _ pg1] exI [of _ pg2] exI [of _ pg3]) simp_all
qed

text \<open>
  The claim C10 as stated fails where it says that the inline background is restored to
  its value before the submission: the last step writes the empty string, whatever the
  button had. A button with an inline background has none after the cycle.
\<close>

theorem idle_restores_counterexample:
  "getElementById styled_form_page ''submitBtn'' = Some 5
   \<and> getElementById styled_form_page ''contactForm'' = Some 6
   \<and> timers styled_form_page = []
   \<and> style_background (nodes styled_form_page 5) = ''red''
   \<and> now (run_events [Submit, Timer, Timer] styled_form_page) = now styled_form_page + 4200
   \<and> style_background (nodes (run_events [Submit, Timer, Timer] styled_form_page) 5)
       \<noteq> style_background (nodes styled_form_page 5)"
proof -
  have h: "getElementById styled_form_page ''submitBtn'' = Some 5"
    "getElementById styled_form_page ''contactForm'' = Some 6"
    "timers styled_form_page = []"
    by (simp_all add: styled_form_page_def form_page_def getElementById_def empty_page_def
        update_node_def)
  have d: "style_background (nodes styled_form_page 5) = ''red''"
    by (simp add: styled_form_page_def update_node_def)
  from submission_states [OF h, of "\<lparr>defaultPrevented = False\<rparr>"]
  obtain pg1 pg2 pg3 where s:
    "handleFormSubmit \<lparr>defaultPrevented = False\<rparr> styled_form_page
       = (\<lparr>defaultPrevented = True\<rparr>, pg1)"
    "run_timer pg1 = Some pg2" "run_timer pg2 = Some pg3"
    "now pg3 = now styled_form_page + 4200"
    "nodes pg3 = (nodes pg2)(5 := (nodes pg2 5)\<lparr>textContent := Literal ''Enviar Mensaje'',
                                       disabled := False, style_background := []\<rparr>)"
    by auto
  have r: "run_events [Submit, Timer, Timer] styled_form_page = pg3"
    by (simp add: run_events_def s(1,2,3))
  from s(5) have "style_background (nodes pg3 5) = []"
    by simp
  with h d s(4) show ?thesis
    unfolding r by simp
qed

text \<open>
  C10, amended. After a complete cycle the button's inline background is the empty
  string, its disabled flag is false and its text is \<open>Enviar Mensaje\<close>; these are the
  values before the submission when the button was enabled and had no inline background
  then. The inline opacity is the \<open>1\<close> written 1200 ms after the submission: the last
  step does not touch it, so it differs from the value before the submission unless that
  was \<open>1\<close>. The last step changes the text, the disabled flag and the inline background
  of the button and nothing else: every other element, every other property of the
  button and all other state of the page are as they were.
\<close>

theorem idle_reversion_frame:
  assumes "getElementById pg ''submitBtn'' = Some btn"
    and "getElementById pg ''contactForm'' = Some form"
    and "timers pg = []"
  shows "\<exists>pg1 pg2 pg3.
     handleFormSubmit event pg = (event\<lparr>defaultPrevented := True\<rparr>, pg1)
     \<and> run_timer pg1 = Some pg2 \<and> run_timer pg2 = Some pg3 \<and> run_timer pg3 = None
     \<and> now pg3 = now pg + 4200
     \<and> style_background (nodes pg3 btn) = []
     \<and> \<not> disabled (nodes pg3 btn)
     \<and> textContent (nodes pg3 btn) = Literal ''Enviar Mensaje''
     \<and> (style_background (nodes pg btn) = [] \<and> \<not> disabled (nodes pg btn) \<longrightarrow>
           style_background (nodes pg3 btn) = style_background (nodes pg btn)
           \<and> disabled (nodes pg3 btn) = disabled (nodes pg btn))
     \<and> style_opacity (nodes pg2 btn) = ''1''
     \<and> style_opacity (nodes pg3 btn) = ''1''
     \<and> (style_opacity (nodes pg btn) \<noteq> ''1'' \<longrightarrow>
           style_opacity (nodes pg3 btn) \<noteq> style_opacity (nodes pg btn))
     \<and> pg3 = revert btn (pg2\<lparr>now := now pg + 4200, timers := []\<rparr>)
     \<and> (\<forall>p. revert btn p =
            p\<lparr>nodes := (nodes p)(btn := (nodes p btn)\<lparr>textContent := Literal ''Enviar Mensaje'',
                                        disabled := False, style_background := []\<rparr>)\<rparr>)
     \<and> (\<forall>r. r \<noteq> btn \<longrightarrow> nodes pg3 r = nodes pg2 r)
     \<and> nodes pg3 btn = (nodes pg2 btn)\<lparr>textContent := Literal ''Enviar Mensaje'',
                                      disabled := False, style_background := []\<rparr>"
proof -
  from submission_states [OF assms, of event]
  obtain pg1 pg2 pg3 where s:
    "handleFormSubmit event pg = (event\<lparr>defaultPrevented := True\<rparr>, pg1)"
    "run_timer pg1 = Some pg2" "run_timer pg2 = Some pg3" "run_timer pg3 = None"
    "now pg3 = now pg + 4200"
    "style_opacity (nodes pg2 btn) = ''1''"
    "nodes pg3 = (nodes pg2)(btn := (nodes pg2 btn)\<lparr>textContent := Literal ''Enviar Mensaje'',
                                       disabled := False, style_background := []\<rparr>)"
    "pg3 = revert btn (pg2\<lparr>now := now pg + 4200, timers := []\<rparr>)"
    by blast
  have f: "\<forall>p. revert btn p =
            p\<lparr>nodes := (nodes p)(btn := (nodes p btn)\<lparr>textContent := Literal ''Enviar Mensaje'',
                                        disabled := False, style_background := []\<rparr>)\<rparr>"
    by (simp add: revert_def update_node_def)
  show ?thesis
    apply (rule exI [of _ pg1], rule exI [of _ pg2], rule exI [of _ pg3])
    apply (intro conjI)
                   apply (rule s(1))
                  apply (rule s(2))
                 apply (rule s(3))
                apply (rule s(4))
               apply (rule s(5))
              apply (simp_all add: s(6) s(7))
     apply (rule s(8))
    apply (rule f)
    done
qed

theorem idle_reversion_frame_witness:
  "getElementById form_page ''submitBtn'' = Some 5
   \<and> getElementById form_page ''contactForm'' = Some 6
   \<and> timers form_page = []
   \<and> style_background (nodes form_page 5) = [] \<and> \<not> disabled (nodes form_page 5)
   \<and> style_opacity (nodes form_page 5) \<noteq> ''1''
   \<and> (\<exists>pg1 pg2 pg3.
        handleFormSubmit \<lparr>defaultPrevented = False\<rparr> form_page = (\<lparr>defaultPrevented = True\<rparr>, pg1)
        \<and> run_timer pg1 = Some pg2 \<and> run_timer pg2 = Some pg3 \<and> run_timer pg3 = None
        \<and> style_background (nodes pg3 5) = style_background (nodes form_page 5)
        \<and> disabled (nodes pg3 5) = disabled (nodes form_page 5)
        \<and> style_opacity (nodes pg3 5) = ''1''
        \<and> style_opacity (nodes pg3 5) \<noteq> style_opacity (nodes form_page 5)
        \<and> nodes pg3 7 = nodes pg2 7)"
proof -
  have h: "getElementById form_page ''submitBtn'' = Some 5"
    "getElementById form_page ''contactForm'' = Some 6"
    "timers form_page = []"
    by (simp_all add: form_page_def getElementById_def empty_page_def)
  have d: "style_background (nodes form_page 5) = [] \<and> \<not> disabled (nodes form_page 5)"
    "style_opacity (nodes form_page 5) \<noteq> ''1''"
    by (simp_all add: form_page_def empty_page_def empty_node_def)
  from idle_reversion_frame [OF h, of "\<lparr>defaultPrevented = False\<rparr>"] d
  obtain pg1 pg2 pg3 where s:
    "handleFormSubmit \<lparr>defaultPrevented = False\<rparr> form_page = (\<lparr>defaultPrevented = True\<rparr>, pg1)"
    "run_timer pg1 = Some pg2" "run_timer pg2 = Some pg3" "run_timer pg3 = None"
    "style_background (nodes pg3 5) = style_background (nodes form_page 5)"
    "disabled (nodes pg3 5) = disabled (nodes form_page 5)"
    "style_opacity (nodes pg3 5) = ''1''"
    "style_opacity (nodes pg3 5) \<noteq> style_opacity (nodes form_page 5)"
    "\<forall>r. r \<noteq> 5 \<longrightarrow> nodes pg3 r = nodes pg2 r"
    by auto
  from s(9) have "nodes pg3 7 = nodes pg2 7"
    by simp
  with h d s show ?thesis
    by (intro conjI exI [of _ pg1] exI [of _ pg2] exI [of _ pg3]) simp_all
qed

section \<open>Properties of the frame loop\<close>


























end
